theory Spec2Isabelle
  imports Main
begin

section \<open>Data model\<close>

text \<open>
  The backend (\<^verbatim>\<open>src/unnamed/part_000\<close>) talks to two external services through
  library calls: a PostgreSQL pool and a Redis client. Every such call is a suspension
  point whose outcome is decided outside the program, so each function below takes the
  outcomes of the calls it may make as arguments and returns, next to its result, the list
  of effects it performed, in order.

  All the code ever reads from a caught library error is its \<^verbatim>\<open>message\<close>, so a library
  error is represented by that message.
\<close>

type_synonym errmsg = string

text \<open>
  Errors the program raises itself. \<^verbatim>\<open>connectToDatabaseWithRetry\<close> ends in
  \<^verbatim>\<open>throw new Error(`Failed to connect to database after ${maxRetries} attempts. Last error: ${lastError.message}`)\<close>:
  \<open>ConnectFailed maxRetries msg\<close> stands for that error; when \<^verbatim>\<open>lastError\<close> is still
  \<^verbatim>\<open>undefined\<close>, reading its \<^verbatim>\<open>message\<close> raises a \<^verbatim>\<open>TypeError\<close> instead.
\<close>

datatype thrown = ConnectFailed int errmsg | TypeError

text \<open>
  Handles are identified by the attempt that created them: \<open>Pool k\<close> is the object
  built by \<^verbatim>\<open>new Pool(...)\<close> on attempt \<open>k\<close>, \<open>RedisClient k\<close> the one built by
  \<^verbatim>\<open>redis.createClient(...)\<close> on attempt \<open>k\<close>.
\<close>

datatype pool_handle = Pool int
datatype redis_handle = RedisClient int

text \<open>
  The effects that matter to the outside. Informational console lines and the
  request-duration histograms are left out; a console line that prints a caught error is
  kept (\<open>LogError\<close>, \<open>LogFatal\<close>), so that "caught and logged" stays visible.
\<close>

datatype event =
    DbAttempt int                 \<comment> \<open>\<^verbatim>\<open>new Pool(...)\<close> and \<^verbatim>\<open>pool.query('SELECT 1')\<close> of one attempt\<close>
  | RetryCounterInc               \<comment> \<open>\<^verbatim>\<open>databaseConnectionRetries.inc()\<close>\<close>
  | Sleep int                     \<comment> \<open>\<^verbatim>\<open>await new Promise(resolve => setTimeout(resolve, ms))\<close>\<close>
  | RedisAttempt int              \<comment> \<open>\<^verbatim>\<open>redis.createClient(...)\<close> and \<^verbatim>\<open>redisClient.connect()\<close>\<close>
  | PoolQuery string              \<comment> \<open>\<^verbatim>\<open>pool.query(sql)\<close>\<close>
  | PoolEnd                       \<comment> \<open>\<^verbatim>\<open>pool.end()\<close>\<close>
  | RedisPing                     \<comment> \<open>\<^verbatim>\<open>redisClient.ping()\<close>\<close>
  | RedisGet string               \<comment> \<open>\<^verbatim>\<open>redisClient.get(key)\<close>\<close>
  | RedisSetEx string nat string  \<comment> \<open>\<^verbatim>\<open>redisClient.setEx(key, seconds, value)\<close>\<close>
  | RedisQuit                     \<comment> \<open>\<^verbatim>\<open>redisClient.quit()\<close>\<close>
  | LogError errmsg               \<comment> \<open>a console line printing a caught library error\<close>
  | LogFatal thrown               \<comment> \<open>a console line printing an error raised by the program\<close>
  | Listen                        \<comment> \<open>\<^verbatim>\<open>app.listen(PORT, ...)\<close> opened the listener\<close>
  | Exit int                      \<comment> \<open>\<^verbatim>\<open>process.exit(code)\<close>\<close>

text \<open>The two module-level variables \<^verbatim>\<open>let pool; let redisClient;\<close>; \<open>None\<close> is
  \<^verbatim>\<open>undefined\<close> or \<^verbatim>\<open>null\<close>.\<close>

record globals =
  pool :: "pool_handle option"
  redisClient :: "redis_handle option"

section \<open>Acquiring the store: \<^verbatim>\<open>connectToDatabaseWithRetry\<close>\<close>

text \<open>
  \<^verbatim>\<open>parseInt(process.env.X) || d\<close>: the environment gives \<open>None\<close> when the variable is
  unset or does not start with a number (\<^verbatim>\<open>NaN\<close>); \<^verbatim>\<open>NaN\<close> and \<^verbatim>\<open>0\<close> are both
  falsy, so both select the default.
\<close>

record config =
  DATABASE_RETRY_ATTEMPTS :: "int option"
  DATABASE_RETRY_DELAY :: "int option"

fun or_default :: "int option \<Rightarrow> int \<Rightarrow> int" where
  "or_default None d = d"
| "or_default (Some n) d = (if n = 0 then d else n)"

definition maxRetries :: "config \<Rightarrow> int" where
  "maxRetries cfg = or_default (DATABASE_RETRY_ATTEMPTS cfg) 10"

definition retryDelay :: "config \<Rightarrow> int" where
  "retryDelay cfg = or_default (DATABASE_RETRY_DELAY cfg) 5000"

text \<open>
  The \<^verbatim>\<open>for (let attempt = 1; attempt <= maxRetries; attempt++)\<close> loop.
  \<open>probe k\<close> is the outcome of attempt \<open>k\<close> (pool construction and the
  \<^verbatim>\<open>SELECT 1\<close> round trip): \<open>None\<close> when it succeeds, \<open>Some msg\<close> when it raises.
  \<open>lastError\<close> is the loop's variable of that name.
\<close>

function db_loop ::
  "(int \<Rightarrow> errmsg option) \<Rightarrow> int \<Rightarrow> int \<Rightarrow> int \<Rightarrow> errmsg option
     \<Rightarrow> event list \<times> (thrown + pool_handle)" where
  "db_loop probe maxR delay attempt lastError =
     (if attempt \<le> maxR then
        (case probe attempt of
           None \<Rightarrow> ([DbAttempt attempt], Inr (Pool attempt))
         | Some msg \<Rightarrow>
             (let (tr, r) = db_loop probe maxR delay (attempt + 1) (Some msg)
              in ([DbAttempt attempt, RetryCounterInc, LogError msg]
                    @ (if attempt < maxR then [Sleep delay] else []) @ tr, r)))
      else
        ([], Inl (case lastError of None \<Rightarrow> TypeError
                                 | Some msg \<Rightarrow> ConnectFailed maxR msg)))"
  by pat_completeness auto
termination
  by (relation "measure (\<lambda>(probe, maxR, delay, attempt, lastError). nat (maxR + 1 - attempt))") auto

declare db_loop.simps [simp del]

definition connectToDatabaseWithRetry ::
  "config \<Rightarrow> (int \<Rightarrow> errmsg option) \<Rightarrow> event list \<times> (thrown + pool_handle)" where
  "connectToDatabaseWithRetry cfg probe =
     db_loop probe (maxRetries cfg) (retryDelay cfg) 1 None"

text \<open>Counting effects in a trace.\<close>

fun is_db_attempt :: "event \<Rightarrow> bool" where
  "is_db_attempt (DbAttempt k) = True"
| "is_db_attempt e = False"

fun is_sleep :: "event \<Rightarrow> bool" where
  "is_sleep (Sleep ms) = True"
| "is_sleep e = False"

definition attempts :: "event list \<Rightarrow> nat" where
  "attempts tr = length (filter is_db_attempt tr)"

definition waits :: "event list \<Rightarrow> event list" where
  "waits tr = filter is_sleep tr"

section \<open>Acquiring the cache: \<^verbatim>\<open>connectToRedisWithRetry\<close>\<close>

text \<open>
  The same loop with the constants \<^verbatim>\<open>maxRetries = 3\<close> and \<^verbatim>\<open>retryDelay = 3000\<close>
  written into the function. \<open>rconn k\<close> is the outcome of attempt \<open>k\<close>
  (\<^verbatim>\<open>createClient\<close> and \<^verbatim>\<open>connect()\<close>). The catch block only logs; after the loop
  the function returns \<^verbatim>\<open>null\<close>. The result type keeps a branch for a raised error, so
  that the caller's \<^verbatim>\<open>try\<close>/\<^verbatim>\<open>catch\<close> can be written as in the source.
\<close>

function redis_loop ::
  "(int \<Rightarrow> errmsg option) \<Rightarrow> int \<Rightarrow> event list \<times> (thrown + redis_handle option)" where
  "redis_loop rconn attempt =
     (if attempt \<le> 3 then
        (case rconn attempt of
           None \<Rightarrow> ([RedisAttempt attempt], Inr (Some (RedisClient attempt)))
         | Some msg \<Rightarrow>
             (let (tr, r) = redis_loop rconn (attempt + 1)
              in ([RedisAttempt attempt, LogError msg]
                    @ (if attempt < 3 then [Sleep 3000] else []) @ tr, r)))
      else ([], Inr None))"
  by pat_completeness auto
termination
  by (relation "measure (\<lambda>(rconn, attempt). nat (4 - attempt))") auto

declare redis_loop.simps [simp del]

definition connectToRedisWithRetry ::
  "(int \<Rightarrow> errmsg option) \<Rightarrow> event list \<times> (thrown + redis_handle option)" where
  "connectToRedisWithRetry rconn = redis_loop rconn 1"



section \<open>Start-up: \<^verbatim>\<open>initializeConnections\<close> and the listener\<close>

text \<open>
  The life cycle of the process as far as the code decides it: it is \<open>Booting\<close> until
  the listener is open, \<open>Serving\<close> afterwards, and \<open>Stopped code\<close> once
  \<^verbatim>\<open>process.exit(code)\<close> has run (which ends the process at once: nothing after it
  executes).
\<close>

datatype service_state = Booting | Serving | Stopped int

text \<open>
  \<^verbatim>\<open>initializeConnections\<close>: both acquisitions sit in one \<^verbatim>\<open>try\<close>; the
  \<^verbatim>\<open>catch\<close> prints the error and exits with code 1.
\<close>

definition initializeConnections ::
  "config \<Rightarrow> (int \<Rightarrow> errmsg option) \<Rightarrow> (int \<Rightarrow> errmsg option) \<Rightarrow> globals
     \<Rightarrow> event list \<times> globals \<times> service_state" where
  "initializeConnections cfg probe rconn g =
     (case connectToDatabaseWithRetry cfg probe of
        (tr1, Inl err) \<Rightarrow> (tr1 @ [LogFatal err, Exit 1], g, Stopped 1)
      | (tr1, Inr p) \<Rightarrow>
          (case connectToRedisWithRetry rconn of
             (tr2, Inl err) \<Rightarrow>
               (tr1 @ tr2 @ [LogFatal err, Exit 1], g\<lparr>pool := Some p\<rparr>, Stopped 1)
           | (tr2, Inr c) \<Rightarrow>
               (tr1 @ tr2, g\<lparr>pool := Some p, redisClient := c\<rparr>, Booting)))"

text \<open>
  \<^verbatim>\<open>initializeConnections().then(() => app.listen(...)).catch(error => process.exit(1))\<close>.
  \<open>listen_res\<close> is the outcome of \<^verbatim>\<open>app.listen\<close>: \<open>None\<close> when the listener opens,
  \<open>Some msg\<close> when the call raises (a port out of range, say), which the final
  \<^verbatim>\<open>catch\<close> turns into exit code 1. Both globals start \<^verbatim>\<open>undefined\<close>.
\<close>

definition startup ::
  "config \<Rightarrow> (int \<Rightarrow> errmsg option) \<Rightarrow> (int \<Rightarrow> errmsg option) \<Rightarrow> errmsg option
     \<Rightarrow> event list \<times> globals \<times> service_state" where
  "startup cfg probe rconn listen_res =
     (case initializeConnections cfg probe rconn \<lparr>pool = None, redisClient = None\<rparr> of
        (tr, g, Stopped code) \<Rightarrow> (tr, g, Stopped code)
      | (tr, g, st) \<Rightarrow>
          (case listen_res of
             None \<Rightarrow> (tr @ [Listen], g, Serving)
           | Some msg \<Rightarrow> (tr @ [LogError msg, Exit 1], g, Stopped 1)))"

section \<open>Health endpoints: \<^verbatim>\<open>GET /ready\<close> and \<^verbatim>\<open>GET /api/health\<close>\<close>

text \<open>
  One entry of \<^verbatim>\<open>healthCheck.checks\<close>: the \<^verbatim>\<open>status\<close> strings
  \<^verbatim>\<open>'Connected'\<close>, \<^verbatim>\<open>'Not Initialized'\<close>, \<^verbatim>\<open>'Not Available'\<close> and
  \<^verbatim>\<open>'Error'\<close> (with the error's message). The \<^verbatim>\<open>timestamp\<close> and
  \<^verbatim>\<open>responseTime\<close> fields hold wall-clock readings and are not modelled.
\<close>

datatype check = Connected | NotInitialized | NotAvailable | CheckError errmsg

record health_body =
  status :: string
  database :: check
  redis :: check

text \<open>
  What the outside decides during one health request: the outcome of
  \<^verbatim>\<open>pool.query('SELECT 1')\<close>, the value read from \<^verbatim>\<open>redisClient.isOpen\<close>, and the
  outcome of \<^verbatim>\<open>redisClient.ping()\<close> (\<open>None\<close>: the call succeeds).
\<close>

record probe_env =
  select1_res :: "errmsg option"
  isOpen_probe :: bool
  ping_res :: "errmsg option"

text \<open>The second \<^verbatim>\<open>try\<close> block, the same text in both handlers.\<close>

definition redis_check :: "globals \<Rightarrow> probe_env \<Rightarrow> event list \<times> check" where
  "redis_check g env =
     (if redisClient g \<noteq> None \<and> isOpen_probe env then
        (case ping_res env of
           None \<Rightarrow> ([RedisPing], Connected)
         | Some msg \<Rightarrow> ([RedisPing], CheckError msg))
      else ([], NotAvailable))"

definition get_ready :: "globals \<Rightarrow> probe_env \<Rightarrow> event list \<times> nat \<times> health_body" where
  "get_ready g env =
     (let (tr1, db, st) =
            (if pool g \<noteq> None then
               (case select1_res env of
                  None \<Rightarrow> ([PoolQuery ''SELECT 1''], Connected, ''READY'')
                | Some msg \<Rightarrow> ([PoolQuery ''SELECT 1''], CheckError msg, ''NOT_READY''))
             else ([], NotInitialized, ''NOT_READY''));
          (tr2, rd) = redis_check g env;
          statusCode = (if st = ''READY'' then 200 else 503)
      in (tr1 @ tr2, statusCode, \<lparr>status = st, database = db, redis = rd\<rparr>))"

text \<open>\<^verbatim>\<open>res.json(healthCheck)\<close> without \<^verbatim>\<open>res.status\<close>: Express answers 200.\<close>

definition get_api_health :: "globals \<Rightarrow> probe_env \<Rightarrow> event list \<times> nat \<times> health_body" where
  "get_api_health g env =
     (let (tr1, db, st) =
            (if pool g \<noteq> None then
               (case select1_res env of
                  None \<Rightarrow> ([PoolQuery ''SELECT 1''], Connected, ''OK'')
                | Some msg \<Rightarrow> ([PoolQuery ''SELECT 1''], CheckError msg, ''Error''))
             else ([], NotInitialized, ''Error''));
          (tr2, rd) = redis_check g env
      in (tr1 @ tr2, 200, \<lparr>status = st, database = db, redis = rd\<rparr>))"

section \<open>The read path: \<^verbatim>\<open>GET /api/users\<close>\<close>

text \<open>
  The body sent: a JSON payload, or \<^verbatim>\<open>{ error: ... }\<close>. \<open>'v\<close> is the type of
  JavaScript values; \<^verbatim>\<open>JSON.parse\<close> (\<open>Inl msg\<close> when it raises a \<^verbatim>\<open>SyntaxError\<close>
  with that message) and \<^verbatim>\<open>JSON.stringify\<close> are parameters of the handler.
\<close>

datatype 'v users_body = Payload 'v | ErrorBody string

text \<open>
  What the outside decides during one request: the two readings of
  \<^verbatim>\<open>redisClient.isOpen\<close> (before the lookup, before the populate), the outcome of
  \<^verbatim>\<open>redisClient.get\<close> (an error, \<^verbatim>\<open>null\<close>, or a string), of the
  \<^verbatim>\<open>SELECT\<close> (an error, or \<^verbatim>\<open>result.rows\<close>) and of \<^verbatim>\<open>redisClient.setEx\<close>.
\<close>

record 'v users_env =
  isOpen_get :: bool
  get_res :: "errmsg + string option"
  query_res :: "errmsg + 'v"
  isOpen_set :: bool
  setEx_res :: "errmsg option"

definition cacheKey :: string where
  "cacheKey = ''users:all''"

definition users_sql :: string where
  "users_sql = ''SELECT * FROM users ORDER BY id''"

text \<open>
  The inner \<^verbatim>\<open>try\<close> around the lookup. \<^verbatim>\<open>if (cachedUsers)\<close> is false for
  \<^verbatim>\<open>null\<close> and for the empty string; \<^verbatim>\<open>JSON.parse\<close> sits inside the \<^verbatim>\<open>try\<close>, so
  a text that does not parse ends in the same \<^verbatim>\<open>catch\<close> as a failed \<^verbatim>\<open>get\<close>.
  The result is the value to serve, if any.
\<close>

definition cache_lookup ::
  "(string \<Rightarrow> errmsg + 'v) \<Rightarrow> globals \<Rightarrow> 'v users_env \<Rightarrow> event list \<times> 'v option" where
  "cache_lookup json_parse g env =
     (if redisClient g \<noteq> None \<and> isOpen_get env then
        (case get_res env of
           Inl msg \<Rightarrow> ([RedisGet cacheKey, LogError msg], None)
         | Inr None \<Rightarrow> ([RedisGet cacheKey], None)
         | Inr (Some cachedUsers) \<Rightarrow>
             (if cachedUsers \<noteq> [] then
                (case json_parse cachedUsers of
                   Inr v \<Rightarrow> ([RedisGet cacheKey], Some v)
                 | Inl msg \<Rightarrow> ([RedisGet cacheKey, LogError msg], None))
              else ([RedisGet cacheKey], None)))
      else ([], None))"

text \<open>The inner \<^verbatim>\<open>try\<close> around the populate: its \<^verbatim>\<open>catch\<close> only logs.\<close>

definition cache_populate ::
  "('v \<Rightarrow> string) \<Rightarrow> globals \<Rightarrow> 'v users_env \<Rightarrow> 'v \<Rightarrow> event list" where
  "cache_populate json_stringify g env rows =
     (if redisClient g \<noteq> None \<and> isOpen_set env then
        (case setEx_res env of
           None \<Rightarrow> [RedisSetEx cacheKey 300 (json_stringify rows)]
         | Some msg \<Rightarrow> [RedisSetEx cacheKey 300 (json_stringify rows), LogError msg])
      else [])"

definition get_api_users ::
  "(string \<Rightarrow> errmsg + 'v) \<Rightarrow> ('v \<Rightarrow> string) \<Rightarrow> globals \<Rightarrow> 'v users_env
     \<Rightarrow> event list \<times> nat \<times> 'v users_body" where
  "get_api_users json_parse json_stringify g env =
     (if pool g = None then ([], 503, ErrorBody ''Database not available'')
      else
        (case cache_lookup json_parse g env of
           (tr1, Some v) \<Rightarrow> (tr1, 200, Payload v)
         | (tr1, None) \<Rightarrow>
             (case query_res env of
                Inl msg \<Rightarrow>
                  (tr1 @ [PoolQuery users_sql, LogError msg], 500,
                   ErrorBody ''Internal server error'')
              | Inr rows \<Rightarrow>
                  (tr1 @ [PoolQuery users_sql] @ cache_populate json_stringify g env rows,
                   200, Payload rows))))"

fun is_store_query :: "event \<Rightarrow> bool" where
  "is_store_query (PoolQuery sql) = True"
| "is_store_query e = False"

definition store_queries :: "event list \<Rightarrow> nat" where
  "store_queries tr = length (filter is_store_query tr)"

fun is_cache_call :: "event \<Rightarrow> bool" where
  "is_cache_call RedisPing = True"
| "is_cache_call (RedisGet k) = True"
| "is_cache_call (RedisSetEx k ttl v) = True"
| "is_cache_call RedisQuit = True"
| "is_cache_call e = False"

subsection \<open>The cache server\<close>

text \<open>
  Modelled from the spec: the cache server itself (Redis) is not part of the repository.
  The spec's CacheEntry has a key, a value and an absolute \<open>expiresAt\<close>, and "an entry is
  only consulted before its \<open>expiresAt\<close>; expired entries are treated as absent". Times are
  in seconds.
\<close>

type_synonym cache = "string \<Rightarrow> (string \<times> nat) option"

definition cache_get :: "cache \<Rightarrow> nat \<Rightarrow> string \<Rightarrow> string option" where
  "cache_get c now k =
     (case c k of
        None \<Rightarrow> None
      | Some (v, expiresAt) \<Rightarrow> if now < expiresAt then Some v else None)"

definition cache_setEx :: "cache \<Rightarrow> nat \<Rightarrow> string \<Rightarrow> nat \<Rightarrow> string \<Rightarrow> cache" where
  "cache_setEx c now k ttl v = c(k \<mapsto> (v, now + ttl))"

text \<open>
  What the outside decides during one served request: the time it is served at, the two
  readings of \<^verbatim>\<open>redisClient.isOpen\<close>, whether \<^verbatim>\<open>redisClient.get\<close> raises, the outcome
  of the \<^verbatim>\<open>SELECT\<close>, and whether \<^verbatim>\<open>redisClient.setEx\<close> raises.
\<close>

record 'v request =
  req_time :: nat
  open_get :: bool
  get_fails :: "errmsg option"
  store_res :: "errmsg + 'v"
  open_set :: bool
  set_fails :: "errmsg option"

text \<open>
  The effect of a trace on the cache: a \<^verbatim>\<open>setEx\<close> that succeeds stores the entry, one
  that raises is taken to have stored nothing.
\<close>

fun cache_apply :: "nat \<Rightarrow> bool \<Rightarrow> event \<Rightarrow> cache \<Rightarrow> cache" where
  "cache_apply now ok (RedisSetEx k ttl v) c = (if ok then cache_setEx c now k ttl v else c)"
| "cache_apply now ok e c = c"

text \<open>
  One request served against the cache \<open>c\<close>: a \<^verbatim>\<open>get\<close> that does not raise returns what
  the cache holds at that time, and the writes of the handler are applied to the cache.
\<close>

definition serve_users ::
  "(string \<Rightarrow> errmsg + 'v) \<Rightarrow> ('v \<Rightarrow> string) \<Rightarrow> globals \<Rightarrow> 'v request \<Rightarrow> cache
     \<Rightarrow> (event list \<times> nat \<times> 'v users_body) \<times> cache" where
  "serve_users json_parse json_stringify g rq c =
     (let env = \<lparr>isOpen_get = open_get rq,
                 get_res = (case get_fails rq of
                              Some msg \<Rightarrow> Inl msg
                            | None \<Rightarrow> Inr (cache_get c (req_time rq) cacheKey)),
                 query_res = store_res rq,
                 isOpen_set = open_set rq,
                 setEx_res = set_fails rq\<rparr>;
          r = get_api_users json_parse json_stringify g env
      in (r, fold (cache_apply (req_time rq) (set_fails rq = None)) (fst r) c))"

text \<open>
  The cache after a sequence of requests. The handler is the only writer of the key in
  the repository, so the caches the service can meet are those reached from the empty
  cache by serving requests.
\<close>

fun serve_all ::
  "(string \<Rightarrow> errmsg + 'v) \<Rightarrow> ('v \<Rightarrow> string) \<Rightarrow> globals \<Rightarrow> 'v request list \<Rightarrow> cache
     \<Rightarrow> cache" where
  "serve_all json_parse json_stringify g [] c = c"
| "serve_all json_parse json_stringify g (rq # rqs) c =
     serve_all json_parse json_stringify g rqs (snd (serve_users json_parse json_stringify g rq c))"

section \<open>Shutdown: the \<^verbatim>\<open>SIGTERM\<close> handler\<close>

text \<open>
  What the outside decides: the outcome of \<^verbatim>\<open>pool.end()\<close>, the value read from
  \<^verbatim>\<open>redisClient.isOpen\<close>, the outcome of \<^verbatim>\<open>redisClient.quit()\<close>. The handler is an
  \<^verbatim>\<open>async\<close> function without \<^verbatim>\<open>try\<close>: an error raised by an awaited call rejects its
  promise there (\<open>Inl msg\<close>) and the rest of the body, \<^verbatim>\<open>process.exit(0)\<close> included,
  does not run. \<open>Inr code\<close> is the exit code passed to \<^verbatim>\<open>process.exit\<close>.
\<close>

record sigterm_env =
  end_res :: "errmsg option"
  isOpen_quit :: bool
  quit_res :: "errmsg option"

definition on_SIGTERM :: "globals \<Rightarrow> sigterm_env \<Rightarrow> event list \<times> (errmsg + int)" where
  "on_SIGTERM g env =
     (case (if pool g \<noteq> None then ([PoolEnd], end_res env) else ([], None)) of
        (tr1, Some msg) \<Rightarrow> (tr1, Inl msg)
      | (tr1, None) \<Rightarrow>
          (case (if redisClient g \<noteq> None \<and> isOpen_quit env
                 then ([RedisQuit], quit_res env) else ([], None)) of
             (tr2, Some msg) \<Rightarrow> (tr1 @ tr2, Inl msg)
           | (tr2, None) \<Rightarrow> (tr1 @ tr2 @ [Exit 0], Inr 0)))"

section \<open>Reading results\<close>

text \<open>A handler returns its trace, the HTTP status code and the body.\<close>

abbreviation code_of :: "event list \<times> nat \<times> 'b \<Rightarrow> nat" where
  "code_of r \<equiv> fst (snd r)"

abbreviation body_of :: "event list \<times> nat \<times> 'b \<Rightarrow> 'b" where
  "body_of r \<equiv> snd (snd r)"

text \<open>The two release calls of the shutdown handler.\<close>

fun is_release :: "event \<Rightarrow> bool" where
  "is_release PoolEnd = True"
| "is_release RedisQuit = True"
| "is_release e = False"

section \<open>Properties\<close>

lemma db_loop_success:
  assumes "attempt \<le> k" "k \<le> maxR" "probe k = None"
    and "\<forall>i. attempt \<le> i \<and> i < k \<longrightarrow> probe i \<noteq> None"
  shows "snd (db_loop probe maxR delay attempt le) = Inr (Pool k)
       \<and> attempts (fst (db_loop probe maxR delay attempt le)) = nat (k + 1 - attempt)
       \<and> waits (fst (db_loop probe maxR delay attempt le)) = replicate (nat (k - attempt)) (Sleep delay)"
  using assms
proof (induction probe maxR delay attempt le rule: db_loop.induct)
  case (1 probe maxR delay attempt lastError)
  show ?case
  proof (cases "probe attempt")
    case None
    with "1.prems" have "attempt = k"
      by (metis order_le_less)
    with None "1.prems" show ?thesis
      by (simp add: db_loop.simps [of probe maxR delay k] attempts_def waits_def)
  next
    case (Some msg)
    with "1.prems" have lt: "attempt < k"
      by (metis option.distinct(1) order_le_less)
    then have le: "attempt \<le> maxR" and lt': "attempt < maxR"
      using "1.prems" by auto
    have IH: "snd (db_loop probe maxR delay (attempt + 1) (Some msg)) = Inr (Pool k)
       \<and> attempts (fst (db_loop probe maxR delay (attempt + 1) (Some msg))) = nat (k + 1 - (attempt + 1))
       \<and> waits (fst (db_loop probe maxR delay (attempt + 1) (Some msg))) = replicate (nat (k - (attempt + 1))) (Sleep delay)"
      using "1.IH" [OF le Some] lt "1.prems" by simp
    have n1: "nat (k + 1 - attempt) = Suc (nat (k - attempt))"
      using lt by simp
    have n2: "nat (k - attempt) = Suc (nat (k - (attempt + 1)))"
      using lt by simp
    show ?thesis
      using IH le lt' Some
      by (simp add: db_loop.simps [of probe maxR delay attempt] attempts_def waits_def
          split_beta n1 n2 del: replicate_Suc) (simp add: n2)
  qed
qed

lemma db_loop_exhaust:
  assumes "attempt \<le> maxR" "probe maxR = Some msg"
    and "\<forall>i. attempt \<le> i \<and> i \<le> maxR \<longrightarrow> probe i \<noteq> None"
  shows "snd (db_loop probe maxR delay attempt le) = Inl (ConnectFailed maxR msg)
       \<and> attempts (fst (db_loop probe maxR delay attempt le)) = nat (maxR + 1 - attempt)
       \<and> waits (fst (db_loop probe maxR delay attempt le)) = replicate (nat (maxR - attempt)) (Sleep delay)
       \<and> (\<exists>pre. fst (db_loop probe maxR delay attempt le)
                   = pre @ [DbAttempt maxR, RetryCounterInc, LogError msg])"
  using assms
proof (induction probe maxR delay attempt le rule: db_loop.induct)
  case (1 probe maxR delay attempt lastError)
  from "1.prems" obtain m where Some: "probe attempt = Some m"
    by (metis not_Some_eq order_refl)
  show ?case
  proof (cases "attempt = maxR")
    case True
    with Some "1.prems" have "m = msg" by simp
    with True Some show ?thesis
      by (simp add: db_loop.simps [of probe maxR delay maxR]
          db_loop.simps [of probe maxR delay "maxR + 1"] attempts_def waits_def)
  next
    case False
    with "1.prems" have lt: "attempt < maxR" by simp
    have IH: "snd (db_loop probe maxR delay (attempt + 1) (Some m)) = Inl (ConnectFailed maxR msg)
       \<and> attempts (fst (db_loop probe maxR delay (attempt + 1) (Some m))) = nat (maxR + 1 - (attempt + 1))
       \<and> waits (fst (db_loop probe maxR delay (attempt + 1) (Some m))) = replicate (nat (maxR - (attempt + 1))) (Sleep delay)
       \<and> (\<exists>pre. fst (db_loop probe maxR delay (attempt + 1) (Some m))
                   = pre @ [DbAttempt maxR, RetryCounterInc, LogError msg])"
      using "1.IH" [OF "1.prems"(1) Some] lt "1.prems" by simp
    then obtain pre where pre: "fst (db_loop probe maxR delay (attempt + 1) (Some m))
                   = pre @ [DbAttempt maxR, RetryCounterInc, LogError msg]"
      by blast
    have n1: "nat (maxR + 1 - attempt) = Suc (nat (maxR - attempt))"
      using lt by simp
    have n2: "nat (maxR - attempt) = Suc (nat (maxR - (attempt + 1)))"
      using lt by simp
    have ex: "\<exists>p. [DbAttempt attempt, RetryCounterInc, LogError m, Sleep delay]
                 @ fst (db_loop probe maxR delay (attempt + 1) (Some m))
               = p @ [DbAttempt maxR, RetryCounterInc, LogError msg]"
      unfolding pre by (metis append_assoc)
    show ?thesis
      using IH lt Some ex
      by (simp add: db_loop.simps [of probe maxR delay attempt] attempts_def waits_def
          split_beta n1 n2 del: replicate_Suc) (simp add: n2)
  qed
qed

lemma db_loop_negative:
  "maxR < attempt \<Longrightarrow> db_loop probe maxR delay attempt None = ([], Inl TypeError)"
  by (simp add: db_loop.simps)



lemma db_loop_all_fail:
  "\<forall>i. attempt \<le> i \<and> i \<le> maxR \<longrightarrow> probe i \<noteq> None
     \<Longrightarrow> \<exists>e. snd (db_loop probe maxR delay attempt le) = Inl e"
proof (induction probe maxR delay attempt le rule: db_loop.induct)
  case (1 probe maxR delay attempt lastError)
  show ?case
  proof (cases "attempt \<le> maxR")
    case le: True
    with "1.prems" obtain m where Some: "probe attempt = Some m" by auto
    from "1.IH" [OF le Some] "1.prems" le Some show ?thesis
      by (simp add: db_loop.simps [of probe maxR delay attempt] split_beta)
  next
    case False
    then show ?thesis by (simp add: db_loop.simps [of probe maxR delay attempt])
  qed
qed

lemma db_loop_no_listen:
  "Listen \<notin> set (fst (db_loop probe maxR delay attempt le))"
proof (induction probe maxR delay attempt le rule: db_loop.induct)
  case (1 probe maxR delay attempt lastError)
  show ?case
  proof (cases "attempt \<le> maxR")
    case le: True
    show ?thesis
    proof (cases "probe attempt")
      case None
      with le show ?thesis by (simp add: db_loop.simps [of probe maxR delay attempt])
    next
      case (Some m)
      from "1.IH" [OF le Some] le Some show ?thesis
        by (simp add: db_loop.simps [of probe maxR delay attempt] split_beta)
    qed
  next
    case False
    then show ?thesis by (simp add: db_loop.simps [of probe maxR delay attempt])
  qed
qed

lemma redis_loop_no_listen:
  "Listen \<notin> set (fst (redis_loop rconn attempt))"
proof (induction rconn attempt rule: redis_loop.induct)
  case (1 rconn attempt)
  show ?case
  proof (cases "attempt \<le> 3")
    case le: True
    show ?thesis
    proof (cases "rconn attempt")
      case None
      with le show ?thesis by (simp add: redis_loop.simps [of rconn attempt])
    next
      case (Some m)
      from "1.IH" [OF le Some] le Some show ?thesis
        by (simp add: redis_loop.simps [of rconn attempt] split_beta)
    qed
  next
    case False
    then show ?thesis by (simp add: redis_loop.simps [of rconn attempt])
  qed
qed

lemma serve_users_cache:
  "snd (serve_users jp js g rq c) = c
 \<or> (\<exists>rows. snd (serve_users jp js g rq c) = cache_setEx c (req_time rq) cacheKey 300 (js rows))"
  by (auto simp: serve_users_def get_api_users_def cache_lookup_def cache_populate_def Let_def
      split: option.splits sum.splits if_splits)

lemma serve_users_snapshot:
  assumes "\<forall>v e. c cacheKey = Some (v, e) \<longrightarrow> v \<in> range js"
  shows "\<forall>v e. snd (serve_users jp js g rq c) cacheKey = Some (v, e) \<longrightarrow> v \<in> range js"
  using serve_users_cache [of jp js g rq c] assms
  by (auto simp: cache_setEx_def)

lemma serve_all_snapshot:
  "\<forall>v e. c cacheKey = Some (v, e) \<longrightarrow> v \<in> range js
     \<Longrightarrow> \<forall>v e. serve_all jp js g rqs c cacheKey = Some (v, e) \<longrightarrow> v \<in> range js"
proof (induction rqs arbitrary: c)
  case Nil
  then show ?case by simp
next
  case (Cons rq rqs)
  have "\<forall>v e. snd (serve_users jp js g rq c) cacheKey = Some (v, e) \<longrightarrow> v \<in> range js"
    using Cons.prems by (rule serve_users_snapshot)
  then have "\<forall>v e. serve_all jp js g rqs (snd (serve_users jp js g rq c)) cacheKey = Some (v, e)
               \<longrightarrow> v \<in> range js"
    by (rule Cons.IH)
  then show ?case by simp
qed

lemma cache_get_snapshot:
  assumes "\<forall>v e. c cacheKey = Some (v, e) \<longrightarrow> v \<in> range js"
    and "cache_get c t cacheKey = Some s"
  shows "s \<in> range js"
  using assms by (auto simp: cache_get_def split: option.splits if_splits)

lemma serve_users_hit:
  assumes "pool g \<noteq> None" "redisClient g \<noteq> None" "open_get rq" "get_fails rq = None"
    and "cache_get c (req_time rq) cacheKey = Some s" "s \<noteq> []" "jp s = Inr w"
  shows "fst (serve_users jp js g rq c) = ([RedisGet cacheKey], 200, Payload w)"
  using assms
  by (simp add: serve_users_def get_api_users_def cache_lookup_def Let_def)

lemma serve_users_miss_once:
  assumes "PoolQuery users_sql \<in> set (fst (fst (serve_users jp js g rq c)))"
  shows "store_queries (fst (fst (serve_users jp js g rq c))) = 1"
  using assms
  by (auto simp: serve_users_def get_api_users_def cache_lookup_def cache_populate_def Let_def
      store_queries_def split: option.splits sum.splits if_splits)

lemma serve_users_populates:
  assumes "pool g \<noteq> None" "redisClient g \<noteq> None"
    and "PoolQuery users_sql \<in> set (fst (fst (serve_users jp js g rq c)))"
    and "store_res rq = Inr rows" "open_set rq" "set_fails rq = None"
  shows "snd (serve_users jp js g rq c) = cache_setEx c (req_time rq) cacheKey 300 (js rows)"
  using assms
  by (auto simp: serve_users_def get_api_users_def cache_lookup_def cache_populate_def Let_def
      split: option.splits sum.splits if_splits)

section \<open>Claims\<close>

text \<open>
  \<^bold>\<open>C1.\<close> Let \<open>N\<close> be the configured number of attempts and \<open>D\<close> the configured delay.
  If the probe of attempt \<open>k\<close> succeeds, \<open>1 \<le> k \<le> N\<close>, and every earlier attempt fails,
  \<^verbatim>\<open>connectToDatabaseWithRetry\<close> returns the pool of attempt \<open>k\<close> after exactly \<open>k\<close>
  attempts and exactly \<open>k - 1\<close> waits, each of \<open>D\<close>. If all \<open>N \<ge> 1\<close> attempts fail, it
  raises the error that carries the message of the last failure, after exactly \<open>N\<close>
  attempts and \<open>N - 1\<close> waits; the trace ends with the last attempt, its counter increment
  and its log line, with no wait behind them.
\<close>

theorem C1_acquireRequired:
  "(1 \<le> k \<and> k \<le> maxRetries cfg \<and> probe k = None \<and> (\<forall>i. 1 \<le> i \<and> i < k \<longrightarrow> probe i \<noteq> None)
      \<longrightarrow> snd (connectToDatabaseWithRetry cfg probe) = Inr (Pool k)
        \<and> attempts (fst (connectToDatabaseWithRetry cfg probe)) = nat k
        \<and> waits (fst (connectToDatabaseWithRetry cfg probe))
            = replicate (nat (k - 1)) (Sleep (retryDelay cfg)))
 \<and> (1 \<le> maxRetries cfg \<and> (\<forall>i. 1 \<le> i \<and> i \<le> maxRetries cfg \<longrightarrow> probe i \<noteq> None)
      \<and> probe (maxRetries cfg) = Some msg
      \<longrightarrow> snd (connectToDatabaseWithRetry cfg probe) = Inl (ConnectFailed (maxRetries cfg) msg)
        \<and> attempts (fst (connectToDatabaseWithRetry cfg probe)) = nat (maxRetries cfg)
        \<and> waits (fst (connectToDatabaseWithRetry cfg probe))
            = replicate (nat (maxRetries cfg - 1)) (Sleep (retryDelay cfg))
        \<and> (\<exists>pre. fst (connectToDatabaseWithRetry cfg probe)
              = pre @ [DbAttempt (maxRetries cfg), RetryCounterInc, LogError msg]))"
proof (intro conjI impI)
  assume h: "1 \<le> k \<and> k \<le> maxRetries cfg \<and> probe k = None \<and> (\<forall>i. 1 \<le> i \<and> i < k \<longrightarrow> probe i \<noteq> None)"
  then have a: "(1::int) \<le> k" "k \<le> maxRetries cfg" "probe k = None"
    "\<forall>i. 1 \<le> i \<and> i < k \<longrightarrow> probe i \<noteq> None" by simp_all
  note s = db_loop_success [OF a, of "retryDelay cfg" None]
  from s show "snd (connectToDatabaseWithRetry cfg probe) = Inr (Pool k)"
    by (simp add: connectToDatabaseWithRetry_def)
  from s show "attempts (fst (connectToDatabaseWithRetry cfg probe)) = nat k"
    by (simp add: connectToDatabaseWithRetry_def)
  from s show "waits (fst (connectToDatabaseWithRetry cfg probe))
            = replicate (nat (k - 1)) (Sleep (retryDelay cfg))"
    by (simp add: connectToDatabaseWithRetry_def)
next
  assume h: "1 \<le> maxRetries cfg \<and> (\<forall>i. 1 \<le> i \<and> i \<le> maxRetries cfg \<longrightarrow> probe i \<noteq> None)
      \<and> probe (maxRetries cfg) = Some msg"
  then have a: "1 \<le> maxRetries cfg" "probe (maxRetries cfg) = Some msg"
    "\<forall>i. 1 \<le> i \<and> i \<le> maxRetries cfg \<longrightarrow> probe i \<noteq> None" by simp_all
  note s = db_loop_exhaust [OF a, of "retryDelay cfg" None]
  from s show "snd (connectToDatabaseWithRetry cfg probe) = Inl (ConnectFailed (maxRetries cfg) msg)"
    by (simp add: connectToDatabaseWithRetry_def)
  from s show "attempts (fst (connectToDatabaseWithRetry cfg probe)) = nat (maxRetries cfg)"
    by (simp add: connectToDatabaseWithRetry_def)
  from s show "waits (fst (connectToDatabaseWithRetry cfg probe))
            = replicate (nat (maxRetries cfg - 1)) (Sleep (retryDelay cfg))"
    by (simp add: connectToDatabaseWithRetry_def)
  from s show "\<exists>pre. fst (connectToDatabaseWithRetry cfg probe)
              = pre @ [DbAttempt (maxRetries cfg), RetryCounterInc, LogError msg]"
    by (simp add: connectToDatabaseWithRetry_def)
qed

theorem C1_acquireRequired_witness:
  "snd (connectToDatabaseWithRetry \<lparr>DATABASE_RETRY_ATTEMPTS = Some 3, DATABASE_RETRY_DELAY = None\<rparr>
          (\<lambda>i. if i < 2 then Some ''ECONNREFUSED'' else None)) = Inr (Pool 2)
 \<and> attempts (fst (connectToDatabaseWithRetry \<lparr>DATABASE_RETRY_ATTEMPTS = Some 3, DATABASE_RETRY_DELAY = None\<rparr>
          (\<lambda>i. if i < 2 then Some ''ECONNREFUSED'' else None))) = 2
 \<and> waits (fst (connectToDatabaseWithRetry \<lparr>DATABASE_RETRY_ATTEMPTS = Some 3, DATABASE_RETRY_DELAY = None\<rparr>
          (\<lambda>i. if i < 2 then Some ''ECONNREFUSED'' else None))) = [Sleep 5000]
 \<and> snd (connectToDatabaseWithRetry \<lparr>DATABASE_RETRY_ATTEMPTS = Some 3, DATABASE_RETRY_DELAY = None\<rparr>
          (\<lambda>i. Some ''ECONNREFUSED'')) = Inl (ConnectFailed 3 ''ECONNREFUSED'')
 \<and> attempts (fst (connectToDatabaseWithRetry \<lparr>DATABASE_RETRY_ATTEMPTS = Some 3, DATABASE_RETRY_DELAY = None\<rparr>
          (\<lambda>i. Some ''ECONNREFUSED''))) = 3
 \<and> waits (fst (connectToDatabaseWithRetry \<lparr>DATABASE_RETRY_ATTEMPTS = Some 3, DATABASE_RETRY_DELAY = None\<rparr>
          (\<lambda>i. Some ''ECONNREFUSED''))) = [Sleep 5000, Sleep 5000]"
  using C1_acquireRequired [of 2 "\<lparr>DATABASE_RETRY_ATTEMPTS = Some 3, DATABASE_RETRY_DELAY = None\<rparr>"
          "\<lambda>i. if i < 2 then Some ''ECONNREFUSED'' else None"]
        C1_acquireRequired [of _ "\<lparr>DATABASE_RETRY_ATTEMPTS = Some 3, DATABASE_RETRY_DELAY = None\<rparr>"
          "\<lambda>i. Some ''ECONNREFUSED''" "''ECONNREFUSED''"]
  by (simp add: maxRetries_def retryDelay_def numeral_eq_Suc)

text \<open>
  \<^bold>\<open>C2.\<close> As amended: on \<^verbatim>\<open>SIGTERM\<close> the handler releases the store pool (if it was
  established) before the cache client (if present and open), store first and then cache,
  and, when no release call raises, it then ends the process with exit code 0.
\<close>

theorem C2_shutdown_order:
  "filter is_release (fst (on_SIGTERM g env)) \<in> {[], [PoolEnd], [RedisQuit], [PoolEnd, RedisQuit]}
 \<and> (end_res env = None \<and> quit_res env = None
      \<longrightarrow> on_SIGTERM g env
          = ((if pool g \<noteq> None then [PoolEnd] else [])
               @ (if redisClient g \<noteq> None \<and> isOpen_quit env then [RedisQuit] else [])
               @ [Exit 0], Inr 0))"
  by (auto simp: on_SIGTERM_def split: option.splits if_splits)

theorem C2_shutdown_order_witness:
  "on_SIGTERM \<lparr>pool = Some (Pool 1), redisClient = Some (RedisClient 1)\<rparr>
      \<lparr>end_res = None, isOpen_quit = True, quit_res = None\<rparr>
     = ([PoolEnd, RedisQuit, Exit 0], Inr 0)
 \<and> filter is_release (fst (on_SIGTERM \<lparr>pool = Some (Pool 1), redisClient = Some (RedisClient 1)\<rparr>
      \<lparr>end_res = None, isOpen_quit = True, quit_res = None\<rparr>)) = [PoolEnd, RedisQuit]"
  using C2_shutdown_order [where g = "\<lparr>pool = Some (Pool 1), redisClient = Some (RedisClient 1)\<rparr>"
      and env = "\<lparr>end_res = None, isOpen_quit = True, quit_res = None\<rparr>"]
  by (simp add: on_SIGTERM_def)

text \<open>
  The claim as written (cache released before the store, exit code 0 even when a release
  raises) fails: with both handles connected the trace is \<open>PoolEnd\<close>, then
  \<open>RedisQuit\<close>, then \<open>Exit 0\<close>; and when \<^verbatim>\<open>pool.end()\<close> raises, the handler stops
  there, the cache is not released and \<^verbatim>\<open>process.exit(0)\<close> is not reached.
\<close>

theorem C2_shutdown_order_counterexample:
  "on_SIGTERM \<lparr>pool = Some (Pool 1), redisClient = Some (RedisClient 1)\<rparr>
     \<lparr>end_res = None, isOpen_quit = True, quit_res = None\<rparr>
     = ([PoolEnd, RedisQuit, Exit 0], Inr 0)
 \<and> on_SIGTERM \<lparr>pool = Some (Pool 1), redisClient = Some (RedisClient 1)\<rparr>
     \<lparr>end_res = Some ''pool.end failed'', isOpen_quit = True, quit_res = None\<rparr>
     = ([PoolEnd], Inl ''pool.end failed'')"
  by (simp add: on_SIGTERM_def)

text \<open>
  \<^bold>\<open>C3.\<close> \<^verbatim>\<open>GET /ready\<close> answers 200 with status \<^verbatim>\<open>READY\<close> when the pool is
  established and its \<^verbatim>\<open>SELECT 1\<close> succeeds, and 503 with \<^verbatim>\<open>NOT_READY\<close> otherwise;
  replacing the cache client, its \<^verbatim>\<open>isOpen\<close> flag and the outcome of its ping by
  anything else changes neither the status code, nor the verdict, nor the database entry.
\<close>

theorem C3_readiness:
  "code_of (get_ready g env) = (if pool g \<noteq> None \<and> select1_res env = None then 200 else 503)
 \<and> status (body_of (get_ready g env)) = (if pool g \<noteq> None \<and> select1_res env = None then ''READY'' else ''NOT_READY'')
 \<and> code_of (get_ready (g\<lparr>redisClient := c\<rparr>) (env\<lparr>isOpen_probe := b, ping_res := q\<rparr>))
      = code_of (get_ready g env)
 \<and> status (body_of (get_ready (g\<lparr>redisClient := c\<rparr>) (env\<lparr>isOpen_probe := b, ping_res := q\<rparr>)))
      = status (body_of (get_ready g env))
 \<and> database (body_of (get_ready (g\<lparr>redisClient := c\<rparr>) (env\<lparr>isOpen_probe := b, ping_res := q\<rparr>)))
      = database (body_of (get_ready g env))"
  by (simp add: get_ready_def redis_check_def split_beta Let_def
      split: option.split)

theorem C3_readiness_witness:
  "code_of (get_ready \<lparr>pool = Some (Pool 1), redisClient = Some (RedisClient 1)\<rparr>
      \<lparr>select1_res = None, isOpen_probe = True, ping_res = Some ''ETIMEDOUT''\<rparr>) = 200
 \<and> code_of (get_ready \<lparr>pool = Some (Pool 1), redisClient = None\<rparr>
      \<lparr>select1_res = None, isOpen_probe = False, ping_res = None\<rparr>) = 200
 \<and> code_of (get_ready \<lparr>pool = Some (Pool 1), redisClient = Some (RedisClient 1)\<rparr>
      \<lparr>select1_res = Some ''ECONNRESET'', isOpen_probe = True, ping_res = None\<rparr>) = 503
 \<and> status (body_of (get_ready \<lparr>pool = None, redisClient = Some (RedisClient 1)\<rparr>
      \<lparr>select1_res = None, isOpen_probe = True, ping_res = None\<rparr>)) = ''NOT_READY''"
  using C3_readiness [where g = "\<lparr>pool = Some (Pool 1), redisClient = Some (RedisClient 1)\<rparr>"
      and env = "\<lparr>select1_res = None, isOpen_probe = True, ping_res = Some ''ETIMEDOUT''\<rparr>"
      and c = None
      and b = False
      and q = None]
    C3_readiness [where g = "\<lparr>pool = Some (Pool 1), redisClient = Some (RedisClient 1)\<rparr>"
      and env = "\<lparr>select1_res = Some ''ECONNRESET'', isOpen_probe = True, ping_res = None\<rparr>"
      and c = None
      and b = False
      and q = None]
    C3_readiness [where g = "\<lparr>pool = None, redisClient = Some (RedisClient 1)\<rparr>"
      and env = "\<lparr>select1_res = None, isOpen_probe = True, ping_res = None\<rparr>"
      and c = None
      and b = False
      and q = None]
  by (simp add: get_ready_def redis_check_def)

text \<open>
  \<^bold>\<open>C4.\<close> In \<^verbatim>\<open>GET /api/users\<close>: an error of \<^verbatim>\<open>redisClient.get\<close> gives the response
  of a miss (the store is queried and its result decides the response); the outcome of
  \<^verbatim>\<open>redisClient.setEx\<close> never changes the response; for every state of the cache the
  response is a 200 cache hit or exactly the response given with no cache client at all;
  and a response other than 200 means the pool is missing or the store query has failed.
\<close>

theorem C4_cache_errors_absorbed:
  "(pool g \<noteq> None \<and> redisClient g \<noteq> None \<and> isOpen_get env \<and> get_res env = Inl msg
      \<longrightarrow> snd (get_api_users jp js g env) = snd (get_api_users jp js g (env\<lparr>get_res := Inr None\<rparr>))
        \<and> PoolQuery users_sql \<in> set (fst (get_api_users jp js g env))
        \<and> snd (get_api_users jp js g env)
            = (case query_res env of
                 Inr rows \<Rightarrow> (200, Payload rows)
               | Inl e \<Rightarrow> (500, ErrorBody ''Internal server error'')))
 \<and> snd (get_api_users jp js g (env\<lparr>setEx_res := x\<rparr>)) = snd (get_api_users jp js g env)
 \<and> (snd (get_api_users jp js g env) = snd (get_api_users jp js (g\<lparr>redisClient := None\<rparr>) env)
      \<or> (\<exists>v. snd (get_api_users jp js g env) = (200, Payload v)))
 \<and> (code_of (get_api_users jp js g env) \<noteq> 200
      \<longrightarrow> pool g = None \<or> isl (query_res env))"
  by (auto simp: get_api_users_def cache_lookup_def cache_populate_def
      split: option.splits sum.splits prod.splits if_splits)

theorem C4_cache_errors_absorbed_witness:
  "get_api_users (\<lambda>s. Inr s) (\<lambda>v. v) \<lparr>pool = Some (Pool 1), redisClient = Some (RedisClient 1)\<rparr>
      \<lparr>isOpen_get = True, get_res = Inl ''ECONNRESET'', query_res = Inr ''[]'',
       isOpen_set = True, setEx_res = Some ''ECONNRESET''\<rparr>
     = ([RedisGet cacheKey, LogError ''ECONNRESET'', PoolQuery users_sql,
         RedisSetEx cacheKey 300 ''[]'', LogError ''ECONNRESET''], 200, Payload ''[]'')
 \<and> code_of (get_api_users (\<lambda>s. Inr s) (\<lambda>v. v) \<lparr>pool = Some (Pool 1), redisClient = Some (RedisClient 1)\<rparr>
      \<lparr>isOpen_get = True, get_res = Inl ''ECONNRESET'', query_res = Inl ''deadlock detected'',
       isOpen_set = True, setEx_res = None\<rparr>) = 500"
  using C4_cache_errors_absorbed [where jp = "\<lambda>s. Inr s"
      and js = "\<lambda>v. v"
      and g = "\<lparr>pool = Some (Pool 1), redisClient = Some (RedisClient 1)\<rparr>"
      and env = "\<lparr>isOpen_get = True, get_res = Inl ''ECONNRESET'', query_res = Inr ''[]'',
       isOpen_set = True, setEx_res = Some ''ECONNRESET''\<rparr>"
      and msg = "''ECONNRESET''"
      and x = None]
    C4_cache_errors_absorbed [where jp = "\<lambda>s. Inr s"
      and js = "\<lambda>v. v"
      and g = "\<lparr>pool = Some (Pool 1), redisClient = Some (RedisClient 1)\<rparr>"
      and env = "\<lparr>isOpen_get = True, get_res = Inl ''ECONNRESET'', query_res = Inl ''deadlock detected'',
       isOpen_set = True, setEx_res = None\<rparr>"
      and msg = "''ECONNRESET''"
      and x = None]
  by (simp add: get_api_users_def cache_lookup_def cache_populate_def)

text \<open>
  \<^bold>\<open>C5.\<close> Take a cache the service can meet (reached from the empty cache by serving
  requests), and let \<^verbatim>\<open>JSON.stringify\<close> never give the empty text and \<^verbatim>\<open>JSON.parse\<close>
  accept what it gives. When the cache client is open, \<^verbatim>\<open>get\<close> does not raise and the
  cache holds an unexpired entry for the key, the handler answers 200 with the value parsed
  from the entry and does not query the store. Consequently two consecutive reads, the
  first a miss, the second with the client open and the entry still unexpired at its
  time, query the store exactly once; this is the case whenever the first read stored its
  rows (client open, \<^verbatim>\<open>setEx\<close> succeeding) and the second comes less than 300 seconds
  after it, and the second read then answers with those rows.
\<close>

theorem C5_cache_hit:
  "(\<forall>v. js v \<noteq> [] \<and> \<not> isl (jp (js v))) \<and> pool g \<noteq> None \<and> redisClient g \<noteq> None
     \<and> c = serve_all jp js g rqs Map.empty
   \<longrightarrow>
     (open_get rq \<and> get_fails rq = None \<and> cache_get c (req_time rq) cacheKey = Some s
        \<longrightarrow> (\<exists>w. jp s = Inr w
              \<and> fst (serve_users jp js g rq c) = ([RedisGet cacheKey], 200, Payload w))
          \<and> store_queries (fst (fst (serve_users jp js g rq c))) = 0)
   \<and> (PoolQuery users_sql \<in> set (fst (fst (serve_users jp js g rqa c)))
        \<and> open_get rqb \<and> get_fails rqb = None
        \<and> cache_get (snd (serve_users jp js g rqa c)) (req_time rqb) cacheKey \<noteq> None
        \<longrightarrow> store_queries (fst (fst (serve_users jp js g rqa c))
                            @ fst (fst (serve_users jp js g rqb (snd (serve_users jp js g rqa c))))) = 1
          \<and> store_queries (fst (fst (serve_users jp js g rqb (snd (serve_users jp js g rqa c))))) = 0)
   \<and> (PoolQuery users_sql \<in> set (fst (fst (serve_users jp js g rqa c)))
        \<and> store_res rqa = Inr rows \<and> open_set rqa \<and> set_fails rqa = None
        \<and> open_get rqb \<and> get_fails rqb = None
        \<and> req_time rqb < req_time rqa + 300
        \<longrightarrow> store_queries (fst (fst (serve_users jp js g rqa c))
                            @ fst (fst (serve_users jp js g rqb (snd (serve_users jp js g rqa c))))) = 1
          \<and> (\<exists>w. jp (js rows) = Inr w
                \<and> fst (serve_users jp js g rqb (snd (serve_users jp js g rqa c)))
                    = ([RedisGet cacheKey], 200, Payload w)))"
proof (intro impI)
  assume H: "(\<forall>v. js v \<noteq> [] \<and> \<not> isl (jp (js v))) \<and> pool g \<noteq> None \<and> redisClient g \<noteq> None
     \<and> c = serve_all jp js g rqs Map.empty"
  then have J: "\<And>v. js v \<noteq> []" "\<And>v. \<not> isl (jp (js v))"
    and g: "pool g \<noteq> None" "redisClient g \<noteq> None"
    and c: "c = serve_all jp js g rqs Map.empty" by simp_all
  have inv: "\<forall>v e. c cacheKey = Some (v, e) \<longrightarrow> v \<in> range js"
    unfolding c by (rule serve_all_snapshot) simp
  have hit: "(\<exists>w. jp s = Inr w \<and> fst (serve_users jp js g rq c') = ([RedisGet cacheKey], 200, Payload w))
           \<and> store_queries (fst (fst (serve_users jp js g rq c'))) = 0"
    if i: "\<forall>v e. c' cacheKey = Some (v, e) \<longrightarrow> v \<in> range js"
      and o: "open_get rq" "get_fails rq = None"
      and s: "cache_get c' (req_time rq) cacheKey = Some s"
    for c' rq s
  proof -
    from cache_get_snapshot [OF i s] obtain v where v: "s = js v" by auto
    from J(2) [of v] obtain w where w: "jp s = Inr w"
      unfolding v by (cases "jp (js v)") simp_all
    have ne: "s \<noteq> []" unfolding v by (rule J(1))
    have r: "fst (serve_users jp js g rq c') = ([RedisGet cacheKey], 200, Payload w)"
      using g o s ne w by (rule serve_users_hit)
    from w r show ?thesis by (simp add: store_queries_def)
  qed
  have inv1: "\<forall>v e. snd (serve_users jp js g rqa c) cacheKey = Some (v, e) \<longrightarrow> v \<in> range js"
    using inv by (rule serve_users_snapshot)
  show "(open_get rq \<and> get_fails rq = None \<and> cache_get c (req_time rq) cacheKey = Some s
        \<longrightarrow> (\<exists>w. jp s = Inr w
              \<and> fst (serve_users jp js g rq c) = ([RedisGet cacheKey], 200, Payload w))
          \<and> store_queries (fst (fst (serve_users jp js g rq c))) = 0)
   \<and> (PoolQuery users_sql \<in> set (fst (fst (serve_users jp js g rqa c)))
        \<and> open_get rqb \<and> get_fails rqb = None
        \<and> cache_get (snd (serve_users jp js g rqa c)) (req_time rqb) cacheKey \<noteq> None
        \<longrightarrow> store_queries (fst (fst (serve_users jp js g rqa c))
                            @ fst (fst (serve_users jp js g rqb (snd (serve_users jp js g rqa c))))) = 1
          \<and> store_queries (fst (fst (serve_users jp js g rqb (snd (serve_users jp js g rqa c))))) = 0)
   \<and> (PoolQuery users_sql \<in> set (fst (fst (serve_users jp js g rqa c)))
        \<and> store_res rqa = Inr rows \<and> open_set rqa \<and> set_fails rqa = None
        \<and> open_get rqb \<and> get_fails rqb = None
        \<and> req_time rqb < req_time rqa + 300
        \<longrightarrow> store_queries (fst (fst (serve_users jp js g rqa c))
                            @ fst (fst (serve_users jp js g rqb (snd (serve_users jp js g rqa c))))) = 1
          \<and> (\<exists>w. jp (js rows) = Inr w
                \<and> fst (serve_users jp js g rqb (snd (serve_users jp js g rqa c)))
                    = ([RedisGet cacheKey], 200, Payload w)))"
  proof (intro conjI impI)
    assume a: "open_get rq \<and> get_fails rq = None \<and> cache_get c (req_time rq) cacheKey = Some s"
    from hit [of c rq s] inv a
    show "\<exists>w. jp s = Inr w
              \<and> fst (serve_users jp js g rq c) = ([RedisGet cacheKey], 200, Payload w)"
      and "store_queries (fst (fst (serve_users jp js g rq c))) = 0"
      by simp_all
  next
    assume a: "PoolQuery users_sql \<in> set (fst (fst (serve_users jp js g rqa c)))
        \<and> open_get rqb \<and> get_fails rqb = None
        \<and> cache_get (snd (serve_users jp js g rqa c)) (req_time rqb) cacheKey \<noteq> None"
    then obtain s2 where s2: "cache_get (snd (serve_users jp js g rqa c)) (req_time rqb) cacheKey = Some s2"
      by auto
    from a have m: "store_queries (fst (fst (serve_users jp js g rqa c))) = 1"
      by (simp add: serve_users_miss_once)
    from hit [of "snd (serve_users jp js g rqa c)" rqb s2] inv1 s2 a
    have z: "store_queries (fst (fst (serve_users jp js g rqb (snd (serve_users jp js g rqa c))))) = 0"
      by simp
    from z show "store_queries (fst (fst (serve_users jp js g rqb (snd (serve_users jp js g rqa c))))) = 0" .
    from m z show "store_queries (fst (fst (serve_users jp js g rqa c))
                            @ fst (fst (serve_users jp js g rqb (snd (serve_users jp js g rqa c))))) = 1"
      by (simp add: store_queries_def)
  next
    assume a: "PoolQuery users_sql \<in> set (fst (fst (serve_users jp js g rqa c)))
        \<and> store_res rqa = Inr rows \<and> open_set rqa \<and> set_fails rqa = None
        \<and> open_get rqb \<and> get_fails rqb = None
        \<and> req_time rqb < req_time rqa + 300"
    then have c1: "snd (serve_users jp js g rqa c)
                     = cache_setEx c (req_time rqa) cacheKey 300 (js rows)"
      using serve_users_populates [OF g, of jp js rqa c rows] by simp
    have s2: "cache_get (snd (serve_users jp js g rqa c)) (req_time rqb) cacheKey = Some (js rows)"
      unfolding c1 using a by (simp add: cache_get_def cache_setEx_def)
    from a have m: "store_queries (fst (fst (serve_users jp js g rqa c))) = 1"
      by (simp add: serve_users_miss_once)
    from hit [of "snd (serve_users jp js g rqa c)" rqb "js rows"] inv1 s2 a
    have h2: "(\<exists>w. jp (js rows) = Inr w
                \<and> fst (serve_users jp js g rqb (snd (serve_users jp js g rqa c)))
                    = ([RedisGet cacheKey], 200, Payload w))
            \<and> store_queries (fst (fst (serve_users jp js g rqb (snd (serve_users jp js g rqa c))))) = 0"
      by simp
    from h2 show "\<exists>w. jp (js rows) = Inr w
                \<and> fst (serve_users jp js g rqb (snd (serve_users jp js g rqa c)))
                    = ([RedisGet cacheKey], 200, Payload w)" by simp
    from m h2 show "store_queries (fst (fst (serve_users jp js g rqa c))
                            @ fst (fst (serve_users jp js g rqb (snd (serve_users jp js g rqa c))))) = 1"
      by (simp add: store_queries_def)
  qed
qed

theorem C5_cache_hit_witness:
  "fst (serve_users (\<lambda>s. if s = [] then Inl ''Unexpected end of JSON input'' else Inr (butlast (tl s)))
          (\<lambda>v. ''['' @ v @ '']'')
          \<lparr>pool = Some (Pool 1), redisClient = Some (RedisClient 1)\<rparr>
          \<lparr>req_time = 100, open_get = True, get_fails = None, store_res = Inr ''3'',
           open_set = True, set_fails = None\<rparr>
          (serve_all (\<lambda>s. if s = [] then Inl ''Unexpected end of JSON input'' else Inr (butlast (tl s)))
             (\<lambda>v. ''['' @ v @ '']'')
             \<lparr>pool = Some (Pool 1), redisClient = Some (RedisClient 1)\<rparr>
             [\<lparr>req_time = 10, open_get = True, get_fails = None, store_res = Inr ''1,2'',
               open_set = True, set_fails = None\<rparr>] Map.empty))
     = ([RedisGet cacheKey], 200, Payload ''1,2'')
 \<and> store_queries
       (fst (fst (serve_users (\<lambda>s. if s = [] then Inl ''Unexpected end of JSON input'' else Inr (butlast (tl s)))
          (\<lambda>v. ''['' @ v @ '']'')
          \<lparr>pool = Some (Pool 1), redisClient = Some (RedisClient 1)\<rparr>
          \<lparr>req_time = 10, open_get = True, get_fails = None, store_res = Inr ''1,2'',
           open_set = True, set_fails = None\<rparr> Map.empty))
        @ fst (fst (serve_users (\<lambda>s. if s = [] then Inl ''Unexpected end of JSON input'' else Inr (butlast (tl s)))
          (\<lambda>v. ''['' @ v @ '']'')
          \<lparr>pool = Some (Pool 1), redisClient = Some (RedisClient 1)\<rparr>
          \<lparr>req_time = 309, open_get = True, get_fails = None, store_res = Inr ''3'',
           open_set = True, set_fails = None\<rparr>
          (snd (serve_users (\<lambda>s. if s = [] then Inl ''Unexpected end of JSON input'' else Inr (butlast (tl s)))
             (\<lambda>v. ''['' @ v @ '']'')
             \<lparr>pool = Some (Pool 1), redisClient = Some (RedisClient 1)\<rparr>
             \<lparr>req_time = 10, open_get = True, get_fails = None, store_res = Inr ''1,2'',
              open_set = True, set_fails = None\<rparr> Map.empty))))) = 1"
  using C5_cache_hit [where jp = "\<lambda>s. if s = [] then Inl ''Unexpected end of JSON input'' else Inr (butlast (tl s))"
      and js = "\<lambda>v. ''['' @ v @ '']''"
      and g = "\<lparr>pool = Some (Pool 1), redisClient = Some (RedisClient 1)\<rparr>"
      and rqs = "[\<lparr>req_time = 10, open_get = True, get_fails = None, store_res = Inr ''1,2'',
               open_set = True, set_fails = None\<rparr>]"
      and c = "serve_all (\<lambda>s. if s = [] then Inl ''Unexpected end of JSON input'' else Inr (butlast (tl s)))
             (\<lambda>v. ''['' @ v @ '']'')
             \<lparr>pool = Some (Pool 1), redisClient = Some (RedisClient 1)\<rparr>
             [\<lparr>req_time = 10, open_get = True, get_fails = None, store_res = Inr ''1,2'',
               open_set = True, set_fails = None\<rparr>] Map.empty"
      and rq = "\<lparr>req_time = 100, open_get = True, get_fails = None, store_res = Inr ''3'',
           open_set = True, set_fails = None\<rparr>"
      and s = "''[1,2]''"
      and rqa = "\<lparr>req_time = 400, open_get = True, get_fails = None, store_res = Inr ''3'',
           open_set = True, set_fails = None\<rparr>"
      and rqb = "\<lparr>req_time = 500, open_get = True, get_fails = None, store_res = Inr ''3'',
           open_set = True, set_fails = None\<rparr>"
      and rows = "''3''"]
    C5_cache_hit [where jp = "\<lambda>s. if s = [] then Inl ''Unexpected end of JSON input'' else Inr (butlast (tl s))"
      and js = "\<lambda>v. ''['' @ v @ '']''"
      and g = "\<lparr>pool = Some (Pool 1), redisClient = Some (RedisClient 1)\<rparr>"
      and rqs = "[]" and c = Map.empty
      and rq = "\<lparr>req_time = 100, open_get = True, get_fails = None, store_res = Inr ''3'',
           open_set = True, set_fails = None\<rparr>"
      and s = "''[1,2]''"
      and rqa = "\<lparr>req_time = 10, open_get = True, get_fails = None, store_res = Inr ''1,2'',
              open_set = True, set_fails = None\<rparr>"
      and rqb = "\<lparr>req_time = 309, open_get = True, get_fails = None, store_res = Inr ''3'',
           open_set = True, set_fails = None\<rparr>"
      and rows = "''1,2''"]
  by (simp add: serve_users_def get_api_users_def cache_lookup_def cache_populate_def
      cache_get_def cache_setEx_def store_queries_def Let_def)



text \<open>
  \<^bold>\<open>C7.\<close> If the listener is opened at all, the store acquisition had returned a pool
  before: the trace of start-up is the whole trace of \<^verbatim>\<open>connectToDatabaseWithRetry\<close>,
  further effects, and then the single \<open>Listen\<close>, and the global \<^verbatim>\<open>pool\<close> holds the
  acquired pool. If every one of the \<open>N\<close> attempts fails, the process ends with
  \<^verbatim>\<open>process.exit(1)\<close> and the listener is never opened.
\<close>

theorem C7_listener_after_store:
  "(Listen \<in> set (fst (startup cfg probe rconn listen_res))
      \<longrightarrow> (\<exists>p tr2. snd (connectToDatabaseWithRetry cfg probe) = Inr p
            \<and> fst (startup cfg probe rconn listen_res)
                = fst (connectToDatabaseWithRetry cfg probe) @ tr2 @ [Listen]
            \<and> Listen \<notin> set (fst (connectToDatabaseWithRetry cfg probe) @ tr2)
            \<and> pool (fst (snd (startup cfg probe rconn listen_res))) = Some p))
 \<and> ((\<forall>i. 1 \<le> i \<and> i \<le> maxRetries cfg \<longrightarrow> probe i \<noteq> None)
      \<longrightarrow> snd (snd (startup cfg probe rconn listen_res)) = Stopped 1
        \<and> Listen \<notin> set (fst (startup cfg probe rconn listen_res))
        \<and> (\<exists>pre. fst (startup cfg probe rconn listen_res) = pre @ [Exit 1]))"
proof (intro conjI impI)
  assume L: "Listen \<in> set (fst (startup cfg probe rconn listen_res))"
  obtain tr1 r1 where c1: "connectToDatabaseWithRetry cfg probe = (tr1, r1)"
    by (cases "connectToDatabaseWithRetry cfg probe")
  obtain tr2 r2 where c2: "connectToRedisWithRetry rconn = (tr2, r2)"
    by (cases "connectToRedisWithRetry rconn")
  have n1: "Listen \<notin> set tr1"
    using db_loop_no_listen [of probe "maxRetries cfg" "retryDelay cfg" 1 None] c1
    by (simp add: connectToDatabaseWithRetry_def)
  have n2: "Listen \<notin> set tr2"
    using redis_loop_no_listen [of rconn 1] c2 by (simp add: connectToRedisWithRetry_def)
  from L c1 c2 n1 n2 obtain p c where r: "r1 = Inr p" "r2 = Inr c" "listen_res = None"
    by (auto simp: startup_def initializeConnections_def split: sum.splits option.splits)
  with c1 c2 n1 n2
  show "\<exists>p tr2. snd (connectToDatabaseWithRetry cfg probe) = Inr p
            \<and> fst (startup cfg probe rconn listen_res)
                = fst (connectToDatabaseWithRetry cfg probe) @ tr2 @ [Listen]
            \<and> Listen \<notin> set (fst (connectToDatabaseWithRetry cfg probe) @ tr2)
            \<and> pool (fst (snd (startup cfg probe rconn listen_res))) = Some p"
    by (simp add: startup_def initializeConnections_def)
next
  assume "\<forall>i. 1 \<le> i \<and> i \<le> maxRetries cfg \<longrightarrow> probe i \<noteq> None"
  then obtain e where e: "snd (connectToDatabaseWithRetry cfg probe) = Inl e"
    using db_loop_all_fail [of 1 "maxRetries cfg" probe "retryDelay cfg" None]
    by (auto simp: connectToDatabaseWithRetry_def)
  obtain tr1 where c1: "connectToDatabaseWithRetry cfg probe = (tr1, Inl e)"
    using e by (cases "connectToDatabaseWithRetry cfg probe") simp
  have n1: "Listen \<notin> set tr1"
    using db_loop_no_listen [of probe "maxRetries cfg" "retryDelay cfg" 1 None] c1
    by (simp add: connectToDatabaseWithRetry_def)
  from c1 show "snd (snd (startup cfg probe rconn listen_res)) = Stopped 1"
    by (simp add: startup_def initializeConnections_def)
  from c1 n1 show "Listen \<notin> set (fst (startup cfg probe rconn listen_res))"
    by (simp add: startup_def initializeConnections_def)
  from c1 show "\<exists>pre. fst (startup cfg probe rconn listen_res) = pre @ [Exit 1]"
    by (simp add: startup_def initializeConnections_def)
qed

theorem C7_listener_after_store_witness:
  "fst (startup \<lparr>DATABASE_RETRY_ATTEMPTS = Some 2, DATABASE_RETRY_DELAY = Some 100\<rparr>
          (\<lambda>i. if i < 2 then Some ''ECONNREFUSED'' else None) (\<lambda>i. None) None)
     = [DbAttempt 1, RetryCounterInc, LogError ''ECONNREFUSED'', Sleep 100, DbAttempt 2,
        RedisAttempt 1, Listen]
 \<and> pool (fst (snd (startup \<lparr>DATABASE_RETRY_ATTEMPTS = Some 2, DATABASE_RETRY_DELAY = Some 100\<rparr>
          (\<lambda>i. if i < 2 then Some ''ECONNREFUSED'' else None) (\<lambda>i. None) None))) = Some (Pool 2)
 \<and> snd (snd (startup \<lparr>DATABASE_RETRY_ATTEMPTS = Some 2, DATABASE_RETRY_DELAY = Some 100\<rparr>
          (\<lambda>i. Some ''ECONNREFUSED'') (\<lambda>i. None) None)) = Stopped 1
 \<and> fst (startup \<lparr>DATABASE_RETRY_ATTEMPTS = Some 2, DATABASE_RETRY_DELAY = Some 100\<rparr>
          (\<lambda>i. Some ''ECONNREFUSED'') (\<lambda>i. None) None)
     = [DbAttempt 1, RetryCounterInc, LogError ''ECONNREFUSED'', Sleep 100,
        DbAttempt 2, RetryCounterInc, LogError ''ECONNREFUSED'',
        LogFatal (ConnectFailed 2 ''ECONNREFUSED''), Exit 1]"
  using C7_listener_after_store [of "\<lparr>DATABASE_RETRY_ATTEMPTS = Some 2, DATABASE_RETRY_DELAY = Some 100\<rparr>"
          "\<lambda>i. if i < 2 then Some ''ECONNREFUSED'' else None" "\<lambda>i. None" None]
        C7_listener_after_store [of "\<lparr>DATABASE_RETRY_ATTEMPTS = Some 2, DATABASE_RETRY_DELAY = Some 100\<rparr>"
          "\<lambda>i. Some ''ECONNREFUSED''" "\<lambda>i. None" None]
  by (simp add: startup_def initializeConnections_def connectToRedisWithRetry_def
      connectToDatabaseWithRetry_def maxRetries_def retryDelay_def redis_loop.simps db_loop.simps)



text \<open>
  \<^bold>\<open>C9.\<close> \<^verbatim>\<open>GET /api/health\<close> answers 200 for every state of the two handles and every
  probe outcome; the body carries the overall status and one entry per dependency, where
  a failed probe appears as an \<^verbatim>\<open>Error\<close> entry with the message of the error.
\<close>

theorem C9_detailed_health:
  "code_of (get_api_health g env) = 200
 \<and> status (body_of (get_api_health g env))
      = (if pool g \<noteq> None \<and> select1_res env = None then ''OK'' else ''Error'')
 \<and> database (body_of (get_api_health g env))
      = (if pool g = None then NotInitialized
         else case select1_res env of None \<Rightarrow> Connected | Some msg \<Rightarrow> CheckError msg)
 \<and> redis (body_of (get_api_health g env))
      = (if redisClient g = None \<or> \<not> isOpen_probe env then NotAvailable
         else case ping_res env of None \<Rightarrow> Connected | Some msg \<Rightarrow> CheckError msg)"
  by (simp add: get_api_health_def redis_check_def split_beta Let_def
      split: option.split)

theorem C9_detailed_health_witness:
  "get_api_health \<lparr>pool = Some (Pool 1), redisClient = Some (RedisClient 1)\<rparr>
      \<lparr>select1_res = Some ''ECONNRESET'', isOpen_probe = True, ping_res = Some ''ETIMEDOUT''\<rparr>
     = ([PoolQuery ''SELECT 1'', RedisPing], 200,
        \<lparr>status = ''Error'', database = CheckError ''ECONNRESET'', redis = CheckError ''ETIMEDOUT''\<rparr>)
 \<and> code_of (get_api_health \<lparr>pool = None, redisClient = None\<rparr>
      \<lparr>select1_res = None, isOpen_probe = False, ping_res = None\<rparr>) = 200"
  using C9_detailed_health [where g = "\<lparr>pool = Some (Pool 1), redisClient = Some (RedisClient 1)\<rparr>"
      and env = "\<lparr>select1_res = Some ''ECONNRESET'', isOpen_probe = True, ping_res = Some ''ETIMEDOUT''\<rparr>"]
    C9_detailed_health [where g = "\<lparr>pool = None, redisClient = None\<rparr>"
      and env = "\<lparr>select1_res = None, isOpen_probe = False, ping_res = None\<rparr>"]
  by (simp add: get_api_health_def redis_check_def)

text \<open>
  \<^bold>\<open>C10.\<close> With a cache client whose \<^verbatim>\<open>isOpen\<close> reads false, each of the four consumers
  (read path, readiness, detailed health, shutdown) does exactly what it does with no
  client at all, the health endpoints report \<^verbatim>\<open>Not Available\<close>, and no cache call is
  made; and in general a cache call appears in a trace only if the client exists and
  \<^verbatim>\<open>isOpen\<close> read true just before it.
\<close>

theorem C10_closed_client_is_absent:
  "get_api_users jp js g (uenv\<lparr>isOpen_get := False, isOpen_set := False\<rparr>)
     = get_api_users jp js (g\<lparr>redisClient := None\<rparr>) (uenv\<lparr>isOpen_get := False, isOpen_set := False\<rparr>)
 \<and> get_ready g (penv\<lparr>isOpen_probe := False\<rparr>)
     = get_ready (g\<lparr>redisClient := None\<rparr>) (penv\<lparr>isOpen_probe := False\<rparr>)
 \<and> redis (body_of (get_ready g (penv\<lparr>isOpen_probe := False\<rparr>))) = NotAvailable
 \<and> get_api_health g (penv\<lparr>isOpen_probe := False\<rparr>)
     = get_api_health (g\<lparr>redisClient := None\<rparr>) (penv\<lparr>isOpen_probe := False\<rparr>)
 \<and> redis (body_of (get_api_health g (penv\<lparr>isOpen_probe := False\<rparr>))) = NotAvailable
 \<and> on_SIGTERM g (senv\<lparr>isOpen_quit := False\<rparr>)
     = on_SIGTERM (g\<lparr>redisClient := None\<rparr>) (senv\<lparr>isOpen_quit := False\<rparr>)
 \<and> filter is_cache_call (fst (get_api_users jp js g (uenv\<lparr>isOpen_get := False, isOpen_set := False\<rparr>))) = []
 \<and> filter is_cache_call (fst (get_ready g (penv\<lparr>isOpen_probe := False\<rparr>))) = []
 \<and> filter is_cache_call (fst (get_api_health g (penv\<lparr>isOpen_probe := False\<rparr>))) = []
 \<and> filter is_cache_call (fst (on_SIGTERM g (senv\<lparr>isOpen_quit := False\<rparr>))) = []
 \<and> (RedisGet k \<in> set (fst (get_api_users jp js g uenv)) \<longrightarrow> redisClient g \<noteq> None \<and> isOpen_get uenv)
 \<and> (RedisSetEx k ttl s \<in> set (fst (get_api_users jp js g uenv))
       \<longrightarrow> redisClient g \<noteq> None \<and> isOpen_set uenv)
 \<and> (RedisPing \<in> set (fst (get_ready g penv)) \<longrightarrow> redisClient g \<noteq> None \<and> isOpen_probe penv)
 \<and> (RedisPing \<in> set (fst (get_api_health g penv)) \<longrightarrow> redisClient g \<noteq> None \<and> isOpen_probe penv)
 \<and> (RedisQuit \<in> set (fst (on_SIGTERM g senv)) \<longrightarrow> redisClient g \<noteq> None \<and> isOpen_quit senv)"
proof (intro conjI)
  show "get_api_users jp js g (uenv\<lparr>isOpen_get := False, isOpen_set := False\<rparr>)
     = get_api_users jp js (g\<lparr>redisClient := None\<rparr>) (uenv\<lparr>isOpen_get := False, isOpen_set := False\<rparr>)"
    by (simp add: get_api_users_def cache_lookup_def cache_populate_def split: sum.split)
  show "get_ready g (penv\<lparr>isOpen_probe := False\<rparr>)
     = get_ready (g\<lparr>redisClient := None\<rparr>) (penv\<lparr>isOpen_probe := False\<rparr>)"
    by (simp add: get_ready_def redis_check_def)
  show "redis (body_of (get_ready g (penv\<lparr>isOpen_probe := False\<rparr>))) = NotAvailable"
    by (simp add: get_ready_def redis_check_def split_beta Let_def)
  show "get_api_health g (penv\<lparr>isOpen_probe := False\<rparr>)
     = get_api_health (g\<lparr>redisClient := None\<rparr>) (penv\<lparr>isOpen_probe := False\<rparr>)"
    by (simp add: get_api_health_def redis_check_def)
  show "redis (body_of (get_api_health g (penv\<lparr>isOpen_probe := False\<rparr>))) = NotAvailable"
    by (simp add: get_api_health_def redis_check_def split_beta Let_def)
  show "on_SIGTERM g (senv\<lparr>isOpen_quit := False\<rparr>)
     = on_SIGTERM (g\<lparr>redisClient := None\<rparr>) (senv\<lparr>isOpen_quit := False\<rparr>)"
    by (simp add: on_SIGTERM_def)
  show "filter is_cache_call (fst (get_api_users jp js g (uenv\<lparr>isOpen_get := False, isOpen_set := False\<rparr>))) = []"
    by (simp add: get_api_users_def cache_lookup_def cache_populate_def split: sum.split)
  show "filter is_cache_call (fst (get_ready g (penv\<lparr>isOpen_probe := False\<rparr>))) = []"
    by (simp add: get_ready_def redis_check_def split_beta Let_def split: option.split)
  show "filter is_cache_call (fst (get_api_health g (penv\<lparr>isOpen_probe := False\<rparr>))) = []"
    by (simp add: get_api_health_def redis_check_def split_beta Let_def split: option.split)
  show "filter is_cache_call (fst (on_SIGTERM g (senv\<lparr>isOpen_quit := False\<rparr>))) = []"
    by (simp add: on_SIGTERM_def split: option.split)
  show "RedisGet k \<in> set (fst (get_api_users jp js g uenv)) \<longrightarrow> redisClient g \<noteq> None \<and> isOpen_get uenv"
    by (auto simp: get_api_users_def cache_lookup_def cache_populate_def
        split: option.splits sum.splits prod.splits if_splits)
  show "RedisSetEx k ttl s \<in> set (fst (get_api_users jp js g uenv))
       \<longrightarrow> redisClient g \<noteq> None \<and> isOpen_set uenv"
    by (auto simp: get_api_users_def cache_lookup_def cache_populate_def
        split: option.splits sum.splits prod.splits if_splits)
  show "RedisPing \<in> set (fst (get_ready g penv)) \<longrightarrow> redisClient g \<noteq> None \<and> isOpen_probe penv"
    by (auto simp: get_ready_def redis_check_def split_beta Let_def split: option.splits if_splits)
  show "RedisPing \<in> set (fst (get_api_health g penv)) \<longrightarrow> redisClient g \<noteq> None \<and> isOpen_probe penv"
    by (auto simp: get_api_health_def redis_check_def split_beta Let_def split: option.splits if_splits)
  show "RedisQuit \<in> set (fst (on_SIGTERM g senv)) \<longrightarrow> redisClient g \<noteq> None \<and> isOpen_quit senv"
    by (auto simp: on_SIGTERM_def split: option.splits if_splits)
qed

theorem C10_closed_client_is_absent_witness:
  "get_api_users (\<lambda>s. Inr s) (\<lambda>v. v) \<lparr>pool = Some (Pool 1), redisClient = Some (RedisClient 1)\<rparr>
      \<lparr>isOpen_get = False, get_res = Inr (Some ''[]''), query_res = Inr ''[]'',
       isOpen_set = False, setEx_res = None\<rparr>
     = ([PoolQuery users_sql], 200, Payload ''[]'')
 \<and> RedisGet cacheKey \<in> set (fst (get_api_users (\<lambda>s. Inr s) (\<lambda>v. v)
      \<lparr>pool = Some (Pool 1), redisClient = Some (RedisClient 1)\<rparr>
      \<lparr>isOpen_get = True, get_res = Inr None, query_res = Inr ''[]'',
       isOpen_set = True, setEx_res = None\<rparr>))
 \<and> RedisSetEx cacheKey 300 ''[]'' \<in> set (fst (get_api_users (\<lambda>s. Inr s) (\<lambda>v. v)
      \<lparr>pool = Some (Pool 1), redisClient = Some (RedisClient 1)\<rparr>
      \<lparr>isOpen_get = True, get_res = Inr None, query_res = Inr ''[]'',
       isOpen_set = True, setEx_res = None\<rparr>))
 \<and> RedisPing \<in> set (fst (get_ready \<lparr>pool = Some (Pool 1), redisClient = Some (RedisClient 1)\<rparr>
      \<lparr>select1_res = None, isOpen_probe = True, ping_res = None\<rparr>))
 \<and> RedisPing \<in> set (fst (get_api_health \<lparr>pool = Some (Pool 1), redisClient = Some (RedisClient 1)\<rparr>
      \<lparr>select1_res = None, isOpen_probe = True, ping_res = None\<rparr>))
 \<and> RedisQuit \<in> set (fst (on_SIGTERM \<lparr>pool = Some (Pool 1), redisClient = Some (RedisClient 1)\<rparr>
      \<lparr>end_res = None, isOpen_quit = True, quit_res = None\<rparr>))
 \<and> on_SIGTERM \<lparr>pool = Some (Pool 1), redisClient = Some (RedisClient 1)\<rparr>
      \<lparr>end_res = None, isOpen_quit = False, quit_res = None\<rparr> = ([PoolEnd, Exit 0], Inr 0)"
  using C10_closed_client_is_absent [where jp = "\<lambda>s. Inr s"
      and js = "\<lambda>v. v"
      and g = "\<lparr>pool = Some (Pool 1), redisClient = Some (RedisClient 1)\<rparr>"
      and uenv = "\<lparr>isOpen_get = True, get_res = Inr None, query_res = Inr ''[]'',
       isOpen_set = True, setEx_res = None\<rparr>"
      and penv = "\<lparr>select1_res = None, isOpen_probe = True, ping_res = None\<rparr>"
      and senv = "\<lparr>end_res = None, isOpen_quit = True, quit_res = None\<rparr>"
      and k = cacheKey
      and ttl = 300
      and s = "''[]''"]
  by (simp add: get_api_users_def cache_lookup_def cache_populate_def get_ready_def
      get_api_health_def redis_check_def on_SIGTERM_def)

end
